theory Spec2Isabelle
  imports Complex_Main
begin

section \<open>Calendar dates\<close>

text \<open>
  The exporter works with \<^verbatim>\<open>datetime.date\<close> values: it compares them, adds a
  \<^verbatim>\<open>timedelta(days=n)\<close> to them and prints them. A date is modelled by its proleptic
  Gregorian ordinal (\<^verbatim>\<open>date.toordinal()\<close>, day 1 is 0001-01-01), so that comparison is
  \<open>\<le>\<close> and adding \<open>n\<close> days is \<open>+ n\<close>. The conversions between ordinals and
  (year, month, day) follow the standard library's \<^verbatim>\<open>_ymd2ord\<close> and \<^verbatim>\<open>_ord2ymd\<close>.
  The library's range limits (years 1 to 9999, at most 999999999 days in a timedelta) are
  outside the model: ordinals are unbounded integers.
\<close>

type_synonym date = int

definition is_leap :: "int \<Rightarrow> bool" where
  "is_leap year = (year mod 4 = 0 \<and> (year mod 100 \<noteq> 0 \<or> year mod 400 = 0))"

definition days_before_year :: "int \<Rightarrow> int" where
  "days_before_year year =
     (let y = year - 1 in y * 365 + y div 4 - y div 100 + y div 400)"

definition DAYS_IN_MONTH :: "int list" where
  "DAYS_IN_MONTH = [-1, 31, 28, 31, 30, 31, 30, 31, 31, 30, 31, 30, 31]"

definition DAYS_BEFORE_MONTH :: "int list" where
  "DAYS_BEFORE_MONTH = [-1, 0, 31, 59, 90, 120, 151, 181, 212, 243, 273, 304, 334]"

definition days_before_month :: "int \<Rightarrow> int \<Rightarrow> int" where
  "days_before_month year month =
     DAYS_BEFORE_MONTH ! nat month + (if month > 2 \<and> is_leap year then 1 else 0)"

definition ymd2ord :: "int \<Rightarrow> int \<Rightarrow> int \<Rightarrow> date" where
  "ymd2ord year month day = days_before_year year + days_before_month year month + day"

definition ord2ymd :: "date \<Rightarrow> int \<times> int \<times> int" where
  "ord2ymd n0 =
     (let n = n0 - 1;
          n400 = n div 146097; n = n mod 146097;
          year = n400 * 400 + 1;
          n100 = n div 36524; n = n mod 36524;
          n4 = n div 1461; n = n mod 1461;
          n1 = n div 365; n = n mod 365;
          year = year + n100 * 100 + n4 * 4 + n1
      in if n1 = 4 \<or> n100 = 4 then (year - 1, 12, 31)
         else
           let leapyear = (n1 = 3 \<and> (n4 \<noteq> 24 \<or> n100 = 3));
               month = (n + 50) div 32;
               preceding = DAYS_BEFORE_MONTH ! nat month
                           + (if month > 2 \<and> leapyear then 1 else 0)
           in if preceding > n
              then let month' = month - 1;
                       preceding' = preceding
                         - (DAYS_IN_MONTH ! nat month'
                            + (if month' = 2 \<and> leapyear then 1 else 0))
                   in (year, month', n - preceding' + 1)
              else (year, month, n - preceding + 1))"

section \<open>Decimal strings\<close>

definition digit_char :: "nat \<Rightarrow> char" where
  "digit_char d = ''0123456789'' ! d"

text \<open>\<^verbatim>\<open>str(n)\<close> for a non-negative integer.\<close>

function str_nat :: "nat \<Rightarrow> string" where
  "str_nat n = (if n < 10 then [digit_char n] else str_nat (n div 10) @ [digit_char (n mod 10)])"
  by pat_completeness auto
termination
  by (relation "measure id") auto

declare str_nat.simps [simp del]

text \<open>\<^verbatim>\<open>"%0wd" % n\<close> for a non-negative integer: zero padding on the left up to width \<open>w\<close>.\<close>

definition zero_pad :: "nat \<Rightarrow> nat \<Rightarrow> string" where
  "zero_pad w n = (let s = str_nat n in replicate (w - length s) CHR ''0'' @ s)"

text \<open>\<^verbatim>\<open>date.isoformat()\<close>, which is what an f-string prints for a date.\<close>

definition isoformat :: "date \<Rightarrow> string" where
  "isoformat d =
     (case ord2ymd d of (y, m, dd) \<Rightarrow>
        zero_pad 4 (nat y) @ ''-'' @ zero_pad 2 (nat m) @ ''-'' @ zero_pad 2 (nat dd))"

section \<open>Floats, rounding and their printed form\<close>

text \<open>
  A coordinate is a Python float. A finite float is modelled by its sign bit and the exact
  rational magnitude it denotes (the sign is kept apart because \<^verbatim>\<open>-0.0\<close> prints
  differently from \<^verbatim>\<open>0.0\<close>). \<^verbatim>\<open>round(x, ndigits)\<close> rounds the exact value
  correctly, ties to even, and keeps the sign; its result is the float nearest to a number
  with \<open>ndigits\<close> decimals, represented here by that decimal number. \<^verbatim>\<open>str\<close> of such
  a float is the shortest decimal string that reads back as the same float: the decimal
  itself with trailing zeros removed and at least one digit after the point. This holds
  for magnitudes below ten to the eleventh, which covers every geographic coordinate;
  infinities, NaN and exponent notation are outside the model.
\<close>

datatype pyfloat = PyFloat (negative: bool) (magnitude: rat)

text \<open>The float of a rational number (positive zero for 0).\<close>

definition float_of :: "rat \<Rightarrow> pyfloat" where
  "float_of q = PyFloat (q < 0) \<bar>q\<bar>"

text \<open>\<open>Decimal s k n\<close> is the number with sign \<open>s\<close> and magnitude \<open>k / 10 ^ n\<close>.\<close>

datatype decimal = Decimal bool nat nat

definition round_half_even :: "rat \<Rightarrow> int" where
  "round_half_even q =
     (let f = \<lfloor>q\<rfloor>; r = q - of_int f
      in if r < 1 / 2 then f else if 1 / 2 < r then f + 1 else if even f then f else f + 1)"

fun py_round :: "pyfloat \<Rightarrow> nat \<Rightarrow> decimal" where
  "py_round (PyFloat s m) ndigits = Decimal s (nat (round_half_even (\<bar>m\<bar> * 10 ^ ndigits))) ndigits"

definition strip_trailing_zeros :: "string \<Rightarrow> string" where
  "strip_trailing_zeros s = rev (dropWhile (\<lambda>c. c = CHR ''0'') (rev s))"

fun str_decimal :: "decimal \<Rightarrow> string" where
  "str_decimal (Decimal s k n) =
     (let frac = strip_trailing_zeros (zero_pad n (k mod 10 ^ n))
      in (if s then ''-'' else []) @ str_nat (k div 10 ^ n) @ ''.''
         @ (if frac = [] then ''0'' else frac))"

declare str_decimal.simps [simp del]

section \<open>Bounding boxes and export identifiers\<close>

record bounding_box =
  min_lat :: pyfloat
  max_lat :: pyfloat
  min_lon :: pyfloat
  max_lon :: pyfloat

text \<open>\<^verbatim>\<open>s.replace(old, new)\<close> where \<open>old\<close> and \<open>new\<close> are single characters.\<close>

definition replace_char :: "char \<Rightarrow> char \<Rightarrow> string \<Rightarrow> string" where
  "replace_char old new s = map (\<lambda>c. if c = old then new else c) s"

text \<open>\<^verbatim>\<open>LabelExporter._generate_filename_and_desc\<close>.\<close>

definition generate_filename_and_desc :: "bounding_box \<Rightarrow> date \<Rightarrow> date \<Rightarrow> string \<times> string" where
  "generate_filename_and_desc bbox start_date end_date =
     (let min_lat' = py_round (min_lat bbox) 4;
          min_lon' = py_round (min_lon bbox) 4;
          max_lat' = py_round (max_lat bbox) 4;
          max_lon' = py_round (max_lon bbox) 4;
          filename =
            ''min_lat='' @ str_decimal min_lat' @ ''_min_lon='' @ str_decimal min_lon'
            @ ''_max_lat='' @ str_decimal max_lat' @ ''_max_lon='' @ str_decimal max_lon'
            @ ''_dates='' @ isoformat start_date @ ''_'' @ isoformat end_date;
          description =
            take 100 (replace_char CHR ''='' CHR ''-'' (replace_char CHR ''.'' CHR ''-'' filename))
      in (filename, description))"

section \<open>Errors and the remote image service\<close>

text \<open>The exceptions that the modelled code can raise or meet.\<close>

datatype py_error =
  ValueError string | KeyError string | EEException string | TypeError string

text \<open>
  Modelled from the spec: \<^verbatim>\<open>EEBoundingBox.to_ee_polygon\<close> (the module
  \<^verbatim>\<open>src/ETL/ee_boundingbox.py\<close> is missing); the spec calls it a pure conversion of a
  box, so a polygon is represented by the box it was made from.
\<close>

datatype polygon = Polygon bounding_box

definition to_ee_polygon :: "bounding_box \<Rightarrow> polygon" where
  "to_ee_polygon bbox = Polygon bbox"

text \<open>
  An image of the service is its ordered list of bands, each a name with its content.
  The three operations of the service that \<^verbatim>\<open>combine_bands\<close> uses follow the
  service's documentation: \<^verbatim>\<open>select\<close> returns the named bands in the order asked for
  and fails when one is absent; \<^verbatim>\<open>addBands\<close> (without overwrite) appends the bands
  of the second image to the first, giving a band whose name is taken a numeric suffix;
  \<^verbatim>\<open>iterate\<close> folds a function over a collection in its order, starting from a null
  value.
\<close>

type_synonym 'a image = "(string \<times> 'a) list"

fun ee_select :: "'a image \<Rightarrow> string list \<Rightarrow> py_error + 'a image" where
  "ee_select img [] = Inr []"
| "ee_select img (b # bs) =
     (case map_of img b of
        None \<Rightarrow> Inl (EEException b)
      | Some v \<Rightarrow> (case ee_select img bs of Inl e \<Rightarrow> Inl e | Inr r \<Rightarrow> Inr ((b, v) # r)))"

definition fresh_band_name :: "string list \<Rightarrow> string \<Rightarrow> string" where
  "fresh_band_name names n =
     (if n \<notin> set names then n
      else case find (\<lambda>c. c \<notin> set names)
                  (map (\<lambda>k. n @ ''_'' @ str_nat k) [1..<length names + 2]) of
             Some c \<Rightarrow> c
           | None \<Rightarrow> n)"

definition ee_addBands :: "'a image \<Rightarrow> 'a image \<Rightarrow> 'a image" where
  "ee_addBands dst src =
     foldl (\<lambda>acc b. acc @ [(fresh_band_name (map fst acc) (fst b), snd b)]) dst src"

text \<open>
  \<^verbatim>\<open>cloudfree.combine_bands(current, previous)\<close>. The constant \<^verbatim>\<open>BANDS\<close> of the
  missing module \<^verbatim>\<open>src/ETL/constants.py\<close> is a parameter.
\<close>

definition combine_bands :: "string list \<Rightarrow> 'a image \<Rightarrow> 'a image option \<Rightarrow> py_error + 'a image" where
  "combine_bands BANDS current previous =
     (case ee_select current BANDS of
        Inl e \<Rightarrow> Inl e
      | Inr current' \<Rightarrow>
          (case previous of
             None \<Rightarrow> Inr current'
           | Some previous' \<Rightarrow> Inr (ee_addBands previous' current')))"

fun ee_iterate ::
  "('a image \<Rightarrow> 'a image option \<Rightarrow> py_error + 'a image) \<Rightarrow> 'a image list \<Rightarrow> 'a image option
     \<Rightarrow> py_error + 'a image option" where
  "ee_iterate f [] previous = Inr previous"
| "ee_iterate f (current # rest) previous =
     (case f current previous of
        Inl e \<Rightarrow> Inl e
      | Inr r \<Rightarrow> ee_iterate f rest (Some r))"

section \<open>The task list and the listing of stored files\<close>

text \<open>A task of the service is a dictionary from keys to strings.\<close>

type_synonym task = "string \<rightharpoonup> string"

text \<open>
  The list comprehension of \<^verbatim>\<open>get_ee_task_list\<close>: the tasks are visited in order,
  the filter reads \<^verbatim>\<open>task["state"]\<close> and a task that passes contributes
  \<^verbatim>\<open>task[key]\<close>; a missing key raises \<^verbatim>\<open>KeyError\<close>.
\<close>

fun task_values :: "task list \<Rightarrow> string \<Rightarrow> py_error + string list" where
  "task_values [] key = Inr []"
| "task_values (t # ts) key =
     (case t ''state'' of
        None \<Rightarrow> Inl (KeyError ''state'')
      | Some st \<Rightarrow>
          if st \<noteq> ''COMPLETED''
          then (case t key of
                  None \<Rightarrow> Inl (KeyError key)
                | Some v \<Rightarrow>
                    (case task_values ts key of Inl e \<Rightarrow> Inl e | Inr vs \<Rightarrow> Inr (v # vs)))
          else task_values ts key)"

text \<open>
  What the program sees of the outside world: the wall-clock date, the answers of the
  remote services, and the functions of the repository's modules that are missing from
  the sources (\<^verbatim>\<open>EEBoundingBox.from_centre\<close>, the two compositing functions of
  \<^verbatim>\<open>cloudfree\<close>, the constant \<^verbatim>\<open>BANDS\<close>) together with \<^verbatim>\<open>strptime\<close> for the
  format \<^verbatim>\<open>%Y-%m-%d\<close>.
\<close>

record 'a environment =
  now_date :: date
  ee_Initialize :: "string option \<Rightarrow> py_error option"
  ee_getTaskList :: "py_error + task list"
  list_blobs :: "string \<Rightarrow> string \<Rightarrow> py_error + string list"
  from_centre :: "pyfloat \<Rightarrow> pyfloat \<Rightarrow> int \<Rightarrow> bounding_box"
  strptime_date :: "string \<Rightarrow> py_error + date"
  get_single_image_fast :: "polygon \<Rightarrow> date \<Rightarrow> date \<Rightarrow> 'a image"
  get_single_image :: "polygon \<Rightarrow> date \<Rightarrow> date \<Rightarrow> 'a image"
  BANDS :: "string list"

text \<open>
  What the program does to the outside world, in order: calls of the remote services and
  lines written to the error log.
\<close>

datatype 'a action =
    Initialize "string option"
  | GetTaskList
  | ListBlobs string string
  | LogError string
  | Composite bool polygon date date
  | Export "py_error + 'a image option" polygon "string option" string bool "int option" string

text \<open>
  \<^verbatim>\<open>get_cloud_tif_list\<close> and \<^verbatim>\<open>get_ee_task_list\<close>, each as one call (the
  \<^verbatim>\<open>memoize\<close> wrapper keeps the first answer for the life of the process).
\<close>

definition get_cloud_tif_list :: "'a environment \<Rightarrow> string \<Rightarrow> 'a action list \<times> (py_error + string list)" where
  "get_cloud_tif_list env dest_bucket =
     ([ListBlobs dest_bucket ''tifs''], list_blobs env dest_bucket ''tifs'')"

definition get_ee_task_list :: "'a environment \<Rightarrow> string \<Rightarrow> 'a action list \<times> (py_error + string list)" where
  "get_ee_task_list env key =
     ([GetTaskList],
      case ee_getTaskList env of Inl e \<Rightarrow> Inl e | Inr task_list \<Rightarrow> task_values task_list key)"

section \<open>The exporters\<close>

record earth_engine_exporter =
  days_per_timestep :: int
  num_timesteps :: int
  fast :: bool
  monitor :: bool
  credentials :: "string option"
  file_dimensions :: "int option"

record label_exporter = earth_engine_exporter +
  dest_bucket :: string
  check_gcp :: bool
  check_ee :: bool
  surrounding_metres :: int
  cloud_tif_list :: "string list"
  ee_task_list :: "string list"

text \<open>
  \<^verbatim>\<open>EarthEngineExporter.check_earthengine_auth\<close>: whatever \<^verbatim>\<open>ee.Initialize\<close>
  raises is caught and logged.
\<close>

definition auth_message :: string where
  "auth_message = ''This code doesn't work unless you have authenticated your earthengine account''"

definition check_earthengine_auth ::
  "'a environment \<Rightarrow> ('z earth_engine_exporter_scheme) \<Rightarrow> 'a action list \<times> (py_error + unit)" where
  "check_earthengine_auth env self =
     (let arg = (case credentials self of
                   None \<Rightarrow> None
                 | Some c \<Rightarrow> if c \<noteq> [] then Some c else None)
      in case ee_Initialize env arg of
           None \<Rightarrow> ([Initialize arg], Inr ())
         | Some e \<Rightarrow> ([Initialize arg, LogError auth_message], Inr ()))"

text \<open>
  The loop of \<^verbatim>\<open>_export_for_polygon\<close> that builds \<^verbatim>\<open>image_collection_list\<close>. It
  need not end (a step of zero days never moves \<^verbatim>\<open>cur_date\<close>), so its result is
  optional: \<open>None\<close> stands for a loop that runs forever.
\<close>

partial_function (option) image_collection_loop ::
  "(date \<Rightarrow> date \<Rightarrow> 'b) \<Rightarrow> int \<Rightarrow> date \<Rightarrow> date \<Rightarrow> 'b list \<Rightarrow> 'b list option" where
  "image_collection_loop export_func increment end_date cur_date image_collection_list =
     (if cur_date + increment \<le> end_date
      then image_collection_loop export_func increment end_date (cur_date + increment)
             (image_collection_list @ [export_func cur_date (cur_date + increment)])
      else Some image_collection_list)"

text \<open>
  The time windows of a date range are the pairs of dates with which that loop calls the
  compositing function.
\<close>

definition time_windows :: "date \<Rightarrow> date \<Rightarrow> int \<Rightarrow> (date \<times> date) list option" where
  "time_windows start_date end_date days_per_step =
     image_collection_loop (\<lambda>s e. (s, e)) days_per_step end_date start_date []"

text \<open>
  \<^verbatim>\<open>cloudfree.export\<close>, the function \<^verbatim>\<open>export\<close> of
  \<^verbatim>\<open>cloudfree/utils.py\<close>, has the parameters listed below. A call binds its keyword
  arguments to the parameters before the body runs, and the first keyword that is not a
  parameter makes the call raise \<^verbatim>\<open>TypeError\<close>. The call at the end of
  \<^verbatim>\<open>_export_for_polygon\<close> passes the keywords listed below.
\<close>

definition export_parameters :: "string list" where
  "export_parameters =
     [''image'', ''region'', ''filename'', ''drive_folder'', ''monitor'', ''file_dimensions'']"

definition export_call_keywords :: "string list" where
  "export_call_keywords =
     [''image'', ''region'', ''dest_bucket'', ''file_name_prefix'', ''monitor'',
      ''file_dimensions'', ''description'']"

definition unexpected_keywords :: "string list \<Rightarrow> string list \<Rightarrow> string list" where
  "unexpected_keywords parameters keywords = filter (\<lambda>k. k \<notin> set parameters) keywords"

definition unexpected_keyword_error :: "string \<Rightarrow> string \<Rightarrow> py_error" where
  "unexpected_keyword_error f k =
     TypeError (f @ ''() got an unexpected keyword argument '' @ [CHR 0x27] @ k @ [CHR 0x27])"

text \<open>
  \<^verbatim>\<open>EarthEngineExporter._export_for_polygon\<close>. Each call of the compositing
  function in the loop is kept with its result, so that the calls appear among the actions.
  The arguments of the final call are evaluated, then the call is bound to the parameters
  of \<^verbatim>\<open>export\<close>; only a call that binds reaches the body, which starts the export
  task.
\<close>

definition export_for_polygon ::
  "'a environment \<Rightarrow> ('z earth_engine_exporter_scheme) \<Rightarrow> polygon \<Rightarrow> date \<Rightarrow> date \<Rightarrow> string
     \<Rightarrow> string \<Rightarrow> string option \<Rightarrow> ('a action list \<times> (py_error + unit)) option" where
  "export_for_polygon env self polygon start_date end_date file_name_prefix description bucket =
     (if end_date > now_date env
      then Some ([], Inl (ValueError (isoformat end_date @ '' is in the future'')))
      else
        let export_func = (if fast self then get_single_image_fast env
                           else get_single_image env)
        in case image_collection_loop
                  (\<lambda>s e. (export_func polygon s e, Composite (fast self) polygon s e))
                  (days_per_timestep self) end_date start_date [] of
             None \<Rightarrow> None
           | Some calls \<Rightarrow>
               let image_collection_list = map fst calls;
                   img = ee_iterate (combine_bands (BANDS env)) image_collection_list None
               in (case unexpected_keywords export_parameters export_call_keywords of
                     k # _ \<Rightarrow> Some (map snd calls, Inl (unexpected_keyword_error ''export'' k))
                   | [] \<Rightarrow>
                       Some (map snd calls
                             @ [Export img polygon bucket file_name_prefix (monitor self)
                                  (file_dimensions self) description],
                             Inr ())))"

text \<open>
  The four ways in which \<^verbatim>\<open>_export_using_point_and_dates\<close> returns. The Python
  function returns only a truth value (\<^verbatim>\<open>False\<close> at its first \<^verbatim>\<open>return\<close>,
  \<^verbatim>\<open>True\<close> at the other three); the model pairs it with the name of the
  \<^verbatim>\<open>return\<close> statement taken.
\<close>

datatype export_outcome = Skipped_Exists | Skipped_Pending | Skipped_QuotaCapped | Submitted

definition export_using_point_and_dates ::
  "'a environment \<Rightarrow> ('z label_exporter_scheme) \<Rightarrow> pyfloat \<Rightarrow> pyfloat \<Rightarrow> date \<Rightarrow> date
     \<Rightarrow> ('a action list \<times> (py_error + bool \<times> export_outcome)) option" where
  "export_using_point_and_dates env self lat lon start_date end_date =
     (let bbox = from_centre env lat lon (surrounding_metres self);
          (file_name_prefix, description) = generate_filename_and_desc bbox start_date end_date
      in if check_gcp self \<and> ''tifs/'' @ file_name_prefix @ ''.tif'' \<in> set (cloud_tif_list self)
         then Some ([], Inr (False, Skipped_Exists))
         else if check_ee self \<and> description \<in> set (ee_task_list self)
         then Some ([], Inr (True, Skipped_Pending))
         else if check_ee self \<and> length (ee_task_list self) \<ge> 3000
         then Some ([], Inr (True, Skipped_QuotaCapped))
         else
           case export_for_polygon env self (to_ee_polygon bbox) start_date end_date
                  (''tifs/'' @ file_name_prefix) description (Some (dest_bucket self)) of
             None \<Rightarrow> None
           | Some (acts, Inl e) \<Rightarrow> Some (acts, Inl e)
           | Some (acts, Inr _) \<Rightarrow> Some (acts, Inr (True, Submitted)))"

text \<open>
  \<^verbatim>\<open>LabelExporter.__post_init__\<close>: the authentication check, then the two listings
  that fill the ledger, each only when its flag is set.
\<close>

definition post_init ::
  "'a environment \<Rightarrow> ('z label_exporter_scheme)
     \<Rightarrow> 'a action list \<times> (py_error + 'z label_exporter_scheme)" where
  "post_init env self =
     (case check_earthengine_auth env self of
        (a1, Inl e) \<Rightarrow> (a1, Inl e)
      | (a1, Inr _) \<Rightarrow>
          (case (if check_gcp self then get_cloud_tif_list env (dest_bucket self)
                 else ([], Inr [])) of
             (a2, Inl e) \<Rightarrow> (a1 @ a2, Inl e)
           | (a2, Inr tifs) \<Rightarrow>
               (case (if check_ee self then get_ee_task_list env ''description''
                      else ([], Inr [])) of
                  (a3, Inl e) \<Rightarrow> (a1 @ a2 @ a3, Inl e)
                | (a3, Inr tasks) \<Rightarrow>
                    (a1 @ a2 @ a3,
                     Inr (self\<lparr>cloud_tif_list := tifs, ee_task_list := tasks\<rparr>)))))"

text \<open>A row of the label table, with the columns that \<^verbatim>\<open>export\<close> reads.\<close>

record label_row =
  row_lat :: pyfloat
  row_lon :: pyfloat
  row_start :: string
  row_end :: string

text \<open>
  The loop of \<^verbatim>\<open>LabelExporter.export\<close> over the rows, with its two counters
  \<^verbatim>\<open>amount_exporting\<close> and \<^verbatim>\<open>amount_exported\<close>. An exception of a row is not
  caught, so it ends the loop.
\<close>

fun export_rows ::
  "'a environment \<Rightarrow> ('z label_exporter_scheme) \<Rightarrow> label_row list \<Rightarrow> nat \<Rightarrow> nat
     \<Rightarrow> ('a action list \<times> (py_error + nat \<times> nat)) option" where
  "export_rows env self [] amount_exporting amount_exported =
     Some ([], Inr (amount_exporting, amount_exported))"
| "export_rows env self (row # rows) amount_exporting amount_exported =
     (case strptime_date env (row_start row) of
        Inl e \<Rightarrow> Some ([], Inl e)
      | Inr start_date \<Rightarrow>
     (case strptime_date env (row_end row) of
        Inl e \<Rightarrow> Some ([], Inl e)
      | Inr end_date \<Rightarrow>
     (case export_using_point_and_dates env self (row_lat row) (row_lon row)
             start_date end_date of
        None \<Rightarrow> None
      | Some (acts, Inl e) \<Rightarrow> Some (acts, Inl e)
      | Some (acts, Inr (is_exporting, _)) \<Rightarrow>
          (case export_rows env self rows
                  (if is_exporting then amount_exporting + 1 else amount_exporting)
                  (if is_exporting then amount_exported else amount_exported + 1) of
             None \<Rightarrow> None
           | Some (acts', r) \<Rightarrow> Some (acts @ acts', r)))))"

text \<open>A run over a label table: the exporter is constructed, then the rows are exported.\<close>

definition run_label_export ::
  "'a environment \<Rightarrow> ('z label_exporter_scheme) \<Rightarrow> label_row list
     \<Rightarrow> ('a action list \<times> (py_error + nat \<times> nat)) option" where
  "run_label_export env self labels =
     (case post_init env self of
        (a1, Inl e) \<Rightarrow> Some (a1, Inl e)
      | (a1, Inr self') \<Rightarrow>
          (case export_rows env self' labels 0 0 of
             None \<Rightarrow> None
           | Some (a2, r) \<Rightarrow> Some (a1 @ a2, r)))"

text \<open>
  The three checks against the ledger, in the words of the code: the stored file of the
  request is listed, the description of the request is a listed task, the list of tasks
  has reached the cap.
\<close>

definition exists_check :: "('z label_exporter_scheme) \<Rightarrow> string \<Rightarrow> bool" where
  "exists_check self file_name_prefix =
     (check_gcp self \<and> ''tifs/'' @ file_name_prefix @ ''.tif'' \<in> set (cloud_tif_list self))"

definition is_pending_check :: "('z label_exporter_scheme) \<Rightarrow> string \<Rightarrow> bool" where
  "is_pending_check self description = (check_ee self \<and> description \<in> set (ee_task_list self))"

definition at_capacity_check :: "('z label_exporter_scheme) \<Rightarrow> bool" where
  "at_capacity_check self = (check_ee self \<and> length (ee_task_list self) \<ge> 3000)"

text \<open>The identifier and the description of the request made for a point and two dates.\<close>

definition request_filename :: "'a environment \<Rightarrow> ('z label_exporter_scheme) \<Rightarrow> pyfloat \<Rightarrow> pyfloat \<Rightarrow> date \<Rightarrow> date \<Rightarrow> string" where
  "request_filename env self lat lon start_date end_date =
     fst (generate_filename_and_desc (from_centre env lat lon (surrounding_metres self))
            start_date end_date)"

definition request_description :: "'a environment \<Rightarrow> ('z label_exporter_scheme) \<Rightarrow> pyfloat \<Rightarrow> pyfloat \<Rightarrow> date \<Rightarrow> date \<Rightarrow> string" where
  "request_description env self lat lon start_date end_date =
     snd (generate_filename_and_desc (from_centre env lat lon (surrounding_metres self))
            start_date end_date)"

text \<open>The outcome of a request, when the processing returns one.\<close>

definition outcome_of :: "('a action list \<times> (py_error + bool \<times> export_outcome)) option \<Rightarrow> export_outcome option" where
  "outcome_of r = (case r of Some (_, Inr (_, oc)) \<Rightarrow> Some oc | _ \<Rightarrow> None)"

text \<open>The actions of the processing of a request, when it returns.\<close>

definition actions_of :: "('a action list \<times> 'r) option \<Rightarrow> 'a action list" where
  "actions_of r = (case r of Some (acts, _) \<Rightarrow> acts | None \<Rightarrow> [])"

text \<open>
  Agreement of two floats in every digit up to the fourth decimal place, and the position
  of a float within half a unit of the fourth decimal place of \<open>k / 10000\<close>.
\<close>

definition same_to_4th_decimal :: "pyfloat \<Rightarrow> pyfloat \<Rightarrow> bool" where
  "same_to_4th_decimal x y =
     (negative x = negative y
      \<and> \<lfloor>\<bar>magnitude x\<bar> * 10 ^ 4\<rfloor> = \<lfloor>\<bar>magnitude y\<bar> * 10 ^ 4\<rfloor>)"

definition within_half :: "pyfloat \<Rightarrow> int \<Rightarrow> bool" where
  "within_half x k = (\<bar>\<bar>magnitude x\<bar> * 10 ^ 4 - of_int k\<bar> < 1 / 2)"

text \<open>The content of the band of an image with a given name.\<close>

definition band_content :: "'a image \<Rightarrow> string \<Rightarrow> 'a" where
  "band_content img b = the (map_of img b)"

text \<open>
  The dates that \<^verbatim>\<open>datetime.date\<close> can hold are those from 0001-01-01 (ordinal 1)
  to 9999-12-31 (ordinal 3652059).
\<close>

definition valid_date :: "date \<Rightarrow> bool" where
  "valid_date d = (1 \<le> d \<and> d \<le> 3652059)"

section \<open>Sample data\<close>

text \<open>
  A box whose coordinates are exact binary fractions, two dates, and an environment in
  which every remote call succeeds. The missing functions are given stand-ins: every
  point gets the sample box, two date strings are understood, and a mosaic of a window
  has two bands that record the window.
\<close>

definition sample_bbox :: bounding_box where
  "sample_bbox = \<lparr>min_lat = float_of (1 / 2), max_lat = float_of (5 / 8),
                   min_lon = float_of (- (3 / 4)), max_lon = float_of (- (5 / 8))\<rparr>"

text \<open>
  Two boxes that differ from the sample box in the southern latitude only:
  \<open>8193 / 16384\<close> is 0.50006103515625 and \<open>32769 / 65536\<close> is
  0.5000152587890625, both exact binary fractions that agree with 0.5 in the first four
  decimals.
\<close>

definition near_bbox :: bounding_box where
  "near_bbox = sample_bbox\<lparr>min_lat := float_of (8193 / 16384)\<rparr>"

definition close_bbox :: bounding_box where
  "close_bbox = sample_bbox\<lparr>min_lat := float_of (32769 / 65536)\<rparr>"

definition sample_mosaic :: "polygon \<Rightarrow> date \<Rightarrow> date \<Rightarrow> (date \<times> date) image" where
  "sample_mosaic p s e = [(''B2'', (s, e)), (''B3'', (s, e)), (''QA'', (s, e))]"

definition sample_strptime :: "string \<Rightarrow> py_error + date" where
  "sample_strptime s =
     (if s = ''2021-01-01'' then Inr (ymd2ord 2021 1 1)
      else if s = ''2021-02-01'' then Inr (ymd2ord 2021 2 1)
      else Inl (ValueError s))"

definition sample_env :: "(date \<times> date) environment" where
  "sample_env =
     \<lparr>now_date = ymd2ord 2021 6 30,
      ee_Initialize = (\<lambda>_. None),
      ee_getTaskList = Inr [],
      list_blobs = (\<lambda>_ _. Inr []),
      from_centre = (\<lambda>_ _ _. sample_bbox),
      strptime_date = sample_strptime,
      get_single_image_fast = sample_mosaic,
      get_single_image = sample_mosaic,
      BANDS = [''B2'', ''B3'']\<rparr>"

text \<open>The exporter with the defaults of the two dataclasses and an empty ledger.\<close>

definition sample_exporter :: label_exporter where
  "sample_exporter =
     \<lparr>days_per_timestep = 30, num_timesteps = 12, fast = True, monitor = False,
      credentials = None, file_dimensions = None,
      dest_bucket = ''crop-mask-tifs'', check_gcp = True, check_ee = True,
      surrounding_metres = 80, cloud_tif_list = [], ee_task_list = []\<rparr>"

definition sample_filename :: string where
  "sample_filename =
     ''min_lat=0.5_min_lon=-0.75_max_lat=0.625_max_lon=-0.625_dates=2021-01-01_2021-02-01''"

definition sample_description :: string where
  "sample_description =
     ''min_lat-0-5_min_lon--0-75_max_lat-0-625_max_lon--0-625_dates-2021-01-01_2021-02-01''"



text \<open>Three thousand distinct task descriptions, none of them a sample description.\<close>

definition many_tasks :: "string list" where
  "many_tasks = map (\<lambda>n. replicate (Suc n) CHR ''x'') [0..<3000]"

text \<open>The sample exporter with a ledger: the sample file is stored, the task list is full.\<close>

definition stored_exporter :: label_exporter where
  "stored_exporter = sample_exporter\<lparr>cloud_tif_list := [''tifs/'' @ sample_filename @ ''.tif'']\<rparr>"

definition pending_exporter :: label_exporter where
  "pending_exporter = sample_exporter\<lparr>ee_task_list := [sample_description]\<rparr>"

definition capped_exporter :: label_exporter where
  "capped_exporter = sample_exporter\<lparr>ee_task_list := many_tasks\<rparr>"


definition capped_stored_exporter :: label_exporter where
  "capped_stored_exporter = stored_exporter\<lparr>ee_task_list := many_tasks\<rparr>"

text \<open>An environment in which \<^verbatim>\<open>ee.Initialize\<close> raises and the sample file is stored.\<close>

definition unauthenticated_env :: "(date \<times> date) environment" where
  "unauthenticated_env =
     sample_env\<lparr>ee_Initialize := (\<lambda>_. Some (EEException ''Please authorize access'')),
                 list_blobs := (\<lambda>_ _. Inr [''tifs/'' @ sample_filename @ ''.tif''])\<rparr>"

text \<open>The sample exporter without the check of the task list.\<close>

definition offline_exporter :: label_exporter where
  "offline_exporter = sample_exporter\<lparr>check_ee := False\<rparr>"

text \<open>An environment whose task list holds one task, which has failed.\<close>

definition failed_task_env :: "(date \<times> date) environment" where
  "failed_task_env =
     sample_env\<lparr>ee_getTaskList :=
       Inr [[''description'' \<mapsto> sample_description, ''state'' \<mapsto> ''FAILED'']]\<rparr>"

definition sample_row :: label_row where
  "sample_row = \<lparr>row_lat = float_of (9 / 16), row_lon = float_of (- (11 / 16)),
                  row_start = ''2021-01-01'', row_end = ''2021-02-01''\<rparr>"

section \<open>Evaluation of the sample data\<close>

lemma round_half_even_unique:
  assumes "\<bar>q - of_int k\<bar> < 1 / 2"
  shows "round_half_even q = k"
proof (cases "of_int k \<le> q")
  case True
  with assms have "\<lfloor>q\<rfloor> = k" by (intro floor_unique) linarith+
  with assms True show ?thesis by (simp add: round_half_even_def Let_def)
next
  case False
  have "of_int (k - 1) \<le> q" using assms False by (simp; linarith)
  moreover have "q < of_int (k - 1) + 1" using False by simp
  ultimately have f: "\<lfloor>q\<rfloor> = k - 1" by (rule floor_unique)
  from assms False have "1 / 2 < q - of_int (k - 1)" by (simp; linarith)
  with f show ?thesis by (simp add: round_half_even_def Let_def)
qed

lemma py_round_within_half:
  "within_half x k \<Longrightarrow> py_round x 4 = Decimal (negative x) (nat k) 4"
  by (cases x) (simp add: within_half_def round_half_even_unique)

lemma sample_round_values:
  "round_half_even 5000 = 5000"
  "round_half_even 6250 = 6250"
  "round_half_even 7500 = 7500"
  "round_half_even (5120625 / 1024) = 5001"
  by (rule round_half_even_unique, simp)+

lemma sample_rounds:
  "py_round (float_of (1 / 2)) 4 = Decimal False 5000 4"
  "py_round (float_of (5 / 8)) 4 = Decimal False 6250 4"
  "py_round (float_of (- (3 / 4))) 4 = Decimal True 7500 4"
  "py_round (float_of (- (5 / 8))) 4 = Decimal True 6250 4"
  "py_round (float_of (8193 / 16384)) 4 = Decimal False 5001 4"
  by (simp_all add: float_of_def sample_round_values)

lemma sample_strs:
  "str_decimal (Decimal False 5000 4) = ''0.5''"
  "str_decimal (Decimal False 6250 4) = ''0.625''"
  "str_decimal (Decimal True 7500 4) = ''-0.75''"
  "str_decimal (Decimal True 6250 4) = ''-0.625''"
  "str_decimal (Decimal False 5001 4) = ''0.5001''"
  by (simp_all add: str_decimal.simps zero_pad_def str_nat.simps digit_char_def
        strip_trailing_zeros_def)

lemma sample_ordinals:
  "ymd2ord 2021 1 1 = 737791"
  "ymd2ord 2021 1 11 = 737801"
  "ymd2ord 2021 1 21 = 737811"
  "ymd2ord 2021 1 25 = 737815"
  "ymd2ord 2021 2 1 = 737822"
  "ymd2ord 2021 6 30 = 737971"
  "ymd2ord 2021 7 1 = 737972"
  by (simp_all add: ymd2ord_def days_before_year_def days_before_month_def
        DAYS_BEFORE_MONTH_def is_leap_def)

lemma sample_dates:
  "isoformat 737791 = ''2021-01-01''"
  "isoformat 737822 = ''2021-02-01''"
  by (simp_all add: isoformat_def ord2ymd_def DAYS_BEFORE_MONTH_def DAYS_IN_MONTH_def
        zero_pad_def str_nat.simps digit_char_def Let_def)

lemma sample_request:
  "generate_filename_and_desc sample_bbox 737791 737822 = (sample_filename, sample_description)"
  by (simp add: generate_filename_and_desc_def sample_bbox_def sample_rounds sample_strs
        sample_dates sample_filename_def sample_description_def replace_char_def Let_def)

section \<open>The loop over the time windows\<close>

lemma image_collection_loop_pos:
  assumes "0 < inc"
  shows "image_collection_loop f inc e cur acc =
     Some (acc @ map (\<lambda>k. f (cur + int k * inc) (cur + int k * inc + inc))
                   [0..<nat ((e - cur) div inc)])"
proof (induction "nat ((e - cur) div inc)" arbitrary: cur acc)
  case 0
  then have "(e - cur) div inc \<le> 0" by simp
  with assms have "\<not> cur + inc \<le> e"
    using pos_imp_zdiv_pos_iff [of inc "e - cur"] by linarith
  with 0 show ?case
    by (subst image_collection_loop.simps) simp
next
  case (Suc n)
  then have d: "(e - cur) div inc = int (Suc n)" by linarith
  with assms have le: "cur + inc \<le> e"
    using pos_imp_zdiv_pos_iff [of inc "e - cur"] by simp
  have "(e - cur) div inc = ((e - (cur + inc)) + inc) div inc" by (simp add: algebra_simps)
  also have "\<dots> = (e - (cur + inc)) div inc + 1"
    using assms by (subst div_add_self2) simp_all
  finally have d': "(e - (cur + inc)) div inc = int n" using d by simp
  then have n: "n = nat ((e - (cur + inc)) div inc)" by simp
  have "image_collection_loop f inc e cur acc =
        image_collection_loop f inc e (cur + inc) (acc @ [f cur (cur + inc)])"
    using le by (subst image_collection_loop.simps) simp
  also have "\<dots> = Some ((acc @ [f cur (cur + inc)]) @
        map (\<lambda>k. f (cur + inc + int k * inc) (cur + inc + int k * inc + inc)) [0..<n])"
    using Suc.hyps(1) [OF n, of "acc @ [f cur (cur + inc)]"] d' by simp
  also have "\<dots> = Some (acc @ map (\<lambda>k. f (cur + int k * inc) (cur + int k * inc + inc)) [0..<Suc n])"
    by (simp add: map_upt_Suc algebra_simps del: upt_Suc)
  finally show ?case unfolding Suc.hyps(2) [symmetric] .
qed

lemma image_collection_loop_stop:
  "\<not> cur + inc \<le> e \<Longrightarrow> image_collection_loop f inc e cur acc = Some acc"
  by (subst image_collection_loop.simps) simp

lemma le_zdiv_iff:
  assumes "0 < (b::int)"
  shows "m \<le> a div b \<longleftrightarrow> m * b \<le> a"
proof
  assume "m \<le> a div b"
  then have "m * b \<le> a div b * b" using assms by (simp add: mult_right_mono)
  moreover have "a div b * b + a mod b = a" by simp
  moreover have "0 \<le> a mod b" using assms by simp
  ultimately show "m * b \<le> a" by linarith
next
  assume "m * b \<le> a"
  then have "(m * b) div b \<le> a div b" using assms by (rule zdiv_mono1)
  then show "m \<le> a div b" using assms by simp
qed

lemma window_count_iff:
  assumes "0 < (step::int)"
  shows "k < nat ((e - s) div step) \<longleftrightarrow> s + int k * step + step \<le> e"
proof -
  have "k < nat ((e - s) div step) \<longleftrightarrow> int k + 1 \<le> (e - s) div step" by linarith
  also have "\<dots> \<longleftrightarrow> (int k + 1) * step \<le> e - s"
    using assms by (rule le_zdiv_iff)
  also have "\<dots> \<longleftrightarrow> s + int k * step + step \<le> e" by (simp add: algebra_simps)
  finally show ?thesis .
qed

lemma time_windows_pos:
  "0 < step \<Longrightarrow> time_windows start_date end_date step =
     Some (map (\<lambda>k. (start_date + int k * step, start_date + int k * step + step))
             [0..<nat ((end_date - start_date) div step)])"
  by (simp add: time_windows_def image_collection_loop_pos)

lemma sample_windows:
  "time_windows 737791 737815 10 = Some [(737791, 737801), (737801, 737811)]"
  by (simp add: time_windows_def image_collection_loop.simps)

text \<open>
  C2. For every start date before the end date and every positive number of days per
  step, the windows are generated greedily from the start date: window number \<open>k\<close>
  is \<open>[start + k * step, start + k * step + step)\<close>, and it is emitted exactly when
  its end does not pass the end date, so that a trailing period shorter than a step is
  dropped. From 2021-01-01 to 2021-01-25 in steps of 10 days there are exactly the two
  windows from 01-01 to 01-11 and from 01-11 to 01-21.
\<close>

theorem time_windows_greedy:
  assumes "start_date < end_date" and "0 < days_per_step"
  shows "time_windows start_date end_date days_per_step =
           Some (map (\<lambda>k. (start_date + int k * days_per_step,
                            start_date + int k * days_per_step + days_per_step))
                   [0..<nat ((end_date - start_date) div days_per_step)])
         \<and> (\<forall>k. k < nat ((end_date - start_date) div days_per_step)
                  \<longleftrightarrow> start_date + int k * days_per_step + days_per_step \<le> end_date)
         \<and> time_windows (ymd2ord 2021 1 1) (ymd2ord 2021 1 25) 10 =
             Some [(ymd2ord 2021 1 1, ymd2ord 2021 1 11), (ymd2ord 2021 1 11, ymd2ord 2021 1 21)]"
  using assms(2) by (simp add: time_windows_pos window_count_iff sample_ordinals sample_windows)

theorem time_windows_greedy_witness:
  "(737791 :: int) < 737820 \<and> (0 :: int) < 7
   \<and> time_windows 737791 737820 7 =
       Some [(737791, 737798), (737798, 737805), (737805, 737812), (737812, 737819)]"
proof -
  have "nat ((737820 - 737791) div (7 :: int)) = 4" by simp
  then show ?thesis
    using time_windows_greedy [of 737791 737820 7]
    by (simp add: upt_conv_Cons del: upt_Suc)
qed

section \<open>The export of one polygon\<close>


lemma export_call_unexpected:
  "unexpected_keywords export_parameters export_call_keywords =
     [''dest_bucket'', ''file_name_prefix'', ''description'']"
  by (simp add: unexpected_keywords_def export_parameters_def export_call_keywords_def)

lemma export_for_polygon_no_window:
  assumes "end_date \<le> now_date env" and "end_date < start_date + days_per_timestep self"
  shows "export_for_polygon env self polygon start_date end_date prefix desc bucket =
     Some ([], Inl (unexpected_keyword_error ''export'' ''dest_bucket''))"
  using assms
  by (simp add: export_for_polygon_def image_collection_loop_stop export_call_unexpected)

lemma export_for_polygon_windows:
  assumes "end_date \<le> now_date env" and "0 < days_per_timestep self"
  shows "\<exists>ws. time_windows start_date end_date (days_per_timestep self) = Some ws
           \<and> export_for_polygon env self polygon start_date end_date prefix desc bucket =
               Some (map (\<lambda>(s, e). Composite (fast self) polygon s e) ws,
                     Inl (unexpected_keyword_error ''export'' ''dest_bucket''))"
  using assms
  by (simp add: export_for_polygon_def time_windows_def image_collection_loop_pos Let_def
        comp_def export_call_unexpected)


lemma sample_env_fields:
  "now_date sample_env = 737971"
  "from_centre sample_env lat lon m = sample_bbox"
  "BANDS sample_env = [''B2'', ''B3'']"
  "get_single_image_fast sample_env = sample_mosaic"
  "get_single_image sample_env = sample_mosaic"
  "strptime_date sample_env = sample_strptime"
  by (simp_all add: sample_env_def sample_ordinals)

text \<open>
  C5, as amended. The generation of the time windows validates nothing and never fails
  with an error for an invalid parameter: whenever the start date plus the days per step
  is a date after the end date (as it is for every end date not after the start date and
  a positive step that stays within the range of dates) the sequence of windows is empty.
\<close>

theorem time_windows_no_validation:
  assumes "valid_date start_date" and "valid_date end_date"
      and "valid_date (start_date + days_per_step)"
      and "end_date < start_date + days_per_step"
  shows "time_windows start_date end_date days_per_step = Some []"
  using assms(4) by (simp add: time_windows_def image_collection_loop_stop)

theorem time_windows_no_validation_witness:
  "valid_date 737815 \<and> valid_date 737791 \<and> valid_date (737815 + 10)
   \<and> (737791 :: int) < 737815 + 10 \<and> time_windows 737815 737791 10 = Some []"
  using time_windows_no_validation [of 737815 737791 10] by (simp add: valid_date_def)

text \<open>
  The claim C5 as it is written fails: with the end date 2021-01-01 before the start date
  2021-01-25 and steps of 10 days the windows are the empty sequence, and they are the
  empty sequence again with steps of minus 10 days.
\<close>

theorem time_windows_invalid_parameter_counterexample:
  "ymd2ord 2021 1 1 \<le> ymd2ord 2021 1 25
   \<and> time_windows (ymd2ord 2021 1 25) (ymd2ord 2021 1 1) 10 = Some []
   \<and> time_windows (ymd2ord 2021 1 25) (ymd2ord 2021 1 1) (- 10) = Some []"
  by (simp add: time_windows_def image_collection_loop_stop sample_ordinals)

section \<open>The ledger and the order of its checks\<close>

lemma sample_request_fields:
  "request_filename sample_env self lat lon 737791 737822 = sample_filename"
  "request_description sample_env self lat lon 737791 737822 = sample_description"
  by (simp_all add: request_filename_def request_description_def sample_env_fields sample_request)

lemma many_tasks_length: "length many_tasks = 3000"
  by (simp add: many_tasks_def)

lemma many_tasks_distinct: "distinct many_tasks"
proof -
  have "inj_on (\<lambda>n. replicate (Suc n) CHR ''x'') (set [0..<3000])"
    by (rule inj_onI) (metis length_replicate nat.inject)
  then show ?thesis by (simp add: many_tasks_def distinct_map)
qed

lemma many_tasks_card: "card (set many_tasks) = 3000"
  using many_tasks_distinct many_tasks_length by (simp add: distinct_card)

lemma sample_description_not_many: "sample_description \<notin> set many_tasks"
  by (auto simp: many_tasks_def sample_description_def)

lemma sample_exporter_fields:
  "check_gcp sample_exporter" "check_ee sample_exporter"
  "cloud_tif_list sample_exporter = []" "ee_task_list sample_exporter = []"
  "dest_bucket sample_exporter = ''crop-mask-tifs''" "fast sample_exporter"
  "days_per_timestep sample_exporter = 30" "\<not> monitor sample_exporter"
  "file_dimensions sample_exporter = None" "credentials sample_exporter = None"
  by (simp_all add: sample_exporter_def)

lemma sample_checks:
  "exists_check stored_exporter sample_filename"
  "\<not> exists_check sample_exporter sample_filename"
  "\<not> exists_check pending_exporter sample_filename"
  "\<not> exists_check capped_exporter sample_filename"
  "exists_check capped_stored_exporter sample_filename"
  "is_pending_check pending_exporter sample_description"
  "\<not> is_pending_check sample_exporter sample_description"
  "\<not> is_pending_check capped_exporter sample_description"
  "at_capacity_check capped_exporter"
  "at_capacity_check capped_stored_exporter"
  "\<not> at_capacity_check sample_exporter"
  by (simp_all add: exists_check_def is_pending_check_def at_capacity_check_def
        stored_exporter_def pending_exporter_def capped_exporter_def capped_stored_exporter_def
        sample_exporter_fields many_tasks_length sample_description_not_many)

lemma capped_exporter_fields:
  "check_ee capped_exporter" "length (ee_task_list capped_exporter) = 3000"
  "check_ee capped_stored_exporter" "length (ee_task_list capped_stored_exporter) = 3000"
  "card (set (ee_task_list capped_stored_exporter)) = 3000"
  by (simp_all add: capped_exporter_def capped_stored_exporter_def stored_exporter_def
        sample_exporter_fields many_tasks_length many_tasks_card)

lemma sample_submission:
  "export_for_polygon sample_env sample_exporter polygon 737791 737822 prefix desc bucket =
   Some ([Composite True polygon 737791 737821],
         Inl (unexpected_keyword_error ''export'' ''dest_bucket''))"
  by (simp add: export_for_polygon_def sample_env_fields sample_exporter_fields
        image_collection_loop.simps export_call_unexpected)

text \<open>
  C1. For every request that \<^verbatim>\<open>_export_using_point_and_dates\<close> processes, the
  checks against the ledger are made in a fixed order: if the stored file exists the
  outcome is Skipped-Exists and nothing else is looked at; otherwise, if the description is
  a pending task, the outcome is Skipped-Pending; otherwise, if the task list holds 3000
  entries or more, the outcome is Skipped-QuotaCapped; and only when all three checks fail
  is the export submitted through \<^verbatim>\<open>_export_for_polygon\<close>.
\<close>

theorem ledger_checks_in_strict_order:
  "let R = export_using_point_and_dates env self lat lon start_date end_date;
       filename = request_filename env self lat lon start_date end_date;
       description = request_description env self lat lon start_date end_date;
       found = exists_check self filename;
       pending = is_pending_check self description;
       capped = at_capacity_check self
   in (found \<longrightarrow> R = Some ([], Inr (False, Skipped_Exists)))
      \<and> (\<not> found \<and> pending \<longrightarrow> R = Some ([], Inr (True, Skipped_Pending)))
      \<and> (\<not> found \<and> \<not> pending \<and> capped \<longrightarrow> R = Some ([], Inr (True, Skipped_QuotaCapped)))
      \<and> (\<not> found \<and> \<not> pending \<and> \<not> capped \<longrightarrow>
           R = map_option
                 (\<lambda>(acts, res). (acts, case res of Inl e \<Rightarrow> Inl e
                                           | Inr _ \<Rightarrow> Inr (True, Submitted)))
                 (export_for_polygon env self
                    (to_ee_polygon (from_centre env lat lon (surrounding_metres self)))
                    start_date end_date (''tifs/'' @ filename) description
                    (Some (dest_bucket self))))
      \<and> (outcome_of R = Some Submitted \<longrightarrow> \<not> found \<and> \<not> pending \<and> \<not> capped)
      \<and> (capped \<longleftrightarrow> check_ee self \<and> 3000 \<le> length (ee_task_list self))"
  by (auto simp: export_using_point_and_dates_def request_filename_def request_description_def
        exists_check_def is_pending_check_def at_capacity_check_def outcome_of_def Let_def
      split: prod.splits option.splits sum.splits)

theorem ledger_checks_in_strict_order_witness:
  "export_using_point_and_dates sample_env stored_exporter (float_of (9 / 16))
     (float_of (- (11 / 16))) 737791 737822 = Some ([], Inr (False, Skipped_Exists))
   \<and> export_using_point_and_dates sample_env pending_exporter (float_of (9 / 16))
     (float_of (- (11 / 16))) 737791 737822 = Some ([], Inr (True, Skipped_Pending))
   \<and> export_using_point_and_dates sample_env capped_exporter (float_of (9 / 16))
     (float_of (- (11 / 16))) 737791 737822 = Some ([], Inr (True, Skipped_QuotaCapped))
   \<and> export_using_point_and_dates sample_env sample_exporter (float_of (9 / 16))
     (float_of (- (11 / 16))) 737791 737822 =
       Some ([Composite True (to_ee_polygon sample_bbox) 737791 737821],
             Inl (unexpected_keyword_error ''export'' ''dest_bucket''))"
  using
    ledger_checks_in_strict_order [of sample_env stored_exporter "float_of (9 / 16)"
      "float_of (- (11 / 16))" 737791 737822]
    ledger_checks_in_strict_order [of sample_env pending_exporter "float_of (9 / 16)"
      "float_of (- (11 / 16))" 737791 737822]
    ledger_checks_in_strict_order [of sample_env capped_exporter "float_of (9 / 16)"
      "float_of (- (11 / 16))" 737791 737822]
    ledger_checks_in_strict_order [of sample_env sample_exporter "float_of (9 / 16)"
      "float_of (- (11 / 16))" 737791 737822]
  by (simp add: Let_def sample_request_fields sample_checks sample_env_fields
        sample_exporter_fields sample_submission)

text \<open>
  C8, as amended. When the pending check is enabled and the task list holds 3000 entries
  or more, no request is submitted and no call is made: a request whose file is stored
  yields Skipped-Exists, one whose description is a listed task yields Skipped-Pending,
  and every other request yields Skipped-QuotaCapped. The storage check is made first.
\<close>

theorem capped_ledger_never_submits:
  assumes "check_ee self" and "3000 \<le> length (ee_task_list self)"
  shows
   "let R = export_using_point_and_dates env self lat lon start_date end_date;
        found = exists_check self (request_filename env self lat lon start_date end_date);
        pending = is_pending_check self
                    (request_description env self lat lon start_date end_date)
    in outcome_of R = Some (if found then Skipped_Exists
                             else if pending then Skipped_Pending
                             else Skipped_QuotaCapped)
       \<and> actions_of R = []
       \<and> (\<not> found \<and> \<not> pending \<longrightarrow> R = Some ([], Inr (True, Skipped_QuotaCapped)))"
  using assms
  by (auto simp: export_using_point_and_dates_def request_filename_def request_description_def
        exists_check_def is_pending_check_def outcome_of_def actions_of_def Let_def
      split: prod.splits)

theorem capped_ledger_never_submits_witness:
  "check_ee capped_exporter \<and> 3000 \<le> length (ee_task_list capped_exporter)
   \<and> export_using_point_and_dates sample_env capped_exporter (float_of (9 / 16))
       (float_of (- (11 / 16))) 737791 737822 = Some ([], Inr (True, Skipped_QuotaCapped))"
  using capped_ledger_never_submits [of capped_exporter sample_env "float_of (9 / 16)"
      "float_of (- (11 / 16))" 737791 737822]
  by (simp add: Let_def sample_request_fields sample_checks capped_exporter_fields)

text \<open>
  The claim C8 as it is written fails: with 3000 distinct pending tasks and the file of
  the request in storage, the storage check is consulted and the outcome is Skipped-Exists,
  not Skipped-QuotaCapped.
\<close>

theorem quota_capped_without_storage_counterexample:
  "check_ee capped_stored_exporter
   \<and> length (ee_task_list capped_stored_exporter) = 3000
   \<and> card (set (ee_task_list capped_stored_exporter)) = 3000
   \<and> export_using_point_and_dates sample_env capped_stored_exporter (float_of (9 / 16))
       (float_of (- (11 / 16))) (ymd2ord 2021 1 1) (ymd2ord 2021 2 1) =
     Some ([], Inr (False, Skipped_Exists))"
  using sample_checks(5)
  by (simp add: export_using_point_and_dates_def sample_env_fields sample_ordinals
        sample_request capped_exporter_fields exists_check_def)

section \<open>Requests with an end date in the future\<close>








section \<open>Export identifiers\<close>

lemma replace_both:
  "replace_char CHR ''='' CHR ''-'' (replace_char CHR ''.'' CHR ''-'' s) =
     map (\<lambda>c. if c = CHR ''.'' \<or> c = CHR ''='' then CHR ''-'' else c) s"
  by (induction s) (auto simp: replace_char_def)

lemma replaced_chars_absent:
  "CHR ''.'' \<notin> set (take n (map (\<lambda>c. if c = CHR ''.'' \<or> c = CHR ''='' then CHR ''-'' else c) s))"
  "CHR ''='' \<notin> set (take n (map (\<lambda>c. if c = CHR ''.'' \<or> c = CHR ''='' then CHR ''-'' else c) s))"
  by (auto dest!: in_set_takeD split: if_splits)

text \<open>
  C3, as amended. The export identifier is the string
  \<^verbatim>\<open>min_lat={v}_min_lon={v}_max_lat={v}_max_lon={v}_dates={start}_{end}\<close> with each
  coordinate rounded to four decimals and the dates in ISO format, and the description of
  the remote job is that string with every \<^verbatim>\<open>.\<close> and every \<^verbatim>\<open>=\<close> replaced by
  \<^verbatim>\<open>-\<close> (not removed), cut to its first 100 characters; so the description has the
  length of the identifier up to 100 and contains neither character.
\<close>

theorem identifier_and_description_format:
  "fst (generate_filename_and_desc bbox start_date end_date) =
     ''min_lat='' @ str_decimal (py_round (min_lat bbox) 4)
     @ ''_min_lon='' @ str_decimal (py_round (min_lon bbox) 4)
     @ ''_max_lat='' @ str_decimal (py_round (max_lat bbox) 4)
     @ ''_max_lon='' @ str_decimal (py_round (max_lon bbox) 4)
     @ ''_dates='' @ isoformat start_date @ ''_'' @ isoformat end_date
   \<and> snd (generate_filename_and_desc bbox start_date end_date) =
       take 100 (map (\<lambda>c. if c = CHR ''.'' \<or> c = CHR ''='' then CHR ''-'' else c)
                   (fst (generate_filename_and_desc bbox start_date end_date)))
   \<and> length (snd (generate_filename_and_desc bbox start_date end_date)) =
       min 100 (length (fst (generate_filename_and_desc bbox start_date end_date)))
   \<and> CHR ''.'' \<notin> set (snd (generate_filename_and_desc bbox start_date end_date))
   \<and> CHR ''='' \<notin> set (snd (generate_filename_and_desc bbox start_date end_date))"
  unfolding generate_filename_and_desc_def Let_def fst_conv snd_conv replace_both
  by (intro conjI refl replaced_chars_absent) simp

theorem identifier_and_description_format_witness:
  "snd (generate_filename_and_desc sample_bbox 737791 737822) =
     take 100 (map (\<lambda>c. if c = CHR ''.'' \<or> c = CHR ''='' then CHR ''-'' else c)
       ''min_lat=0.5_min_lon=-0.75_max_lat=0.625_max_lon=-0.625_dates=2021-01-01_2021-02-01'')
   \<and> length (snd (generate_filename_and_desc sample_bbox 737791 737822)) = 82"
proof -
  note t = identifier_and_description_format [of sample_bbox 737791 737822]
  have "snd (generate_filename_and_desc sample_bbox 737791 737822) =
        take 100 (map (\<lambda>c. if c = CHR ''.'' \<or> c = CHR ''='' then CHR ''-'' else c)
          (fst (generate_filename_and_desc sample_bbox 737791 737822)))"
    by (rule t [THEN conjunct2, THEN conjunct1])
  moreover have "length (snd (generate_filename_and_desc sample_bbox 737791 737822)) =
        min 100 (length (fst (generate_filename_and_desc sample_bbox 737791 737822)))"
    by (rule t [THEN conjunct2, THEN conjunct2, THEN conjunct1])
  moreover have "fst (generate_filename_and_desc sample_bbox 737791 737822) =
      ''min_lat=0.5_min_lon=-0.75_max_lat=0.625_max_lon=-0.625_dates=2021-01-01_2021-02-01''"
    by (simp add: sample_request sample_filename_def)
  ultimately show ?thesis by simp
qed

text \<open>
  The claim C3 as it is written fails: for the sample box and the dates 2021-01-01 and
  2021-02-01 the description keeps a \<^verbatim>\<open>-\<close> where the identifier has \<^verbatim>\<open>.\<close> or
  \<^verbatim>\<open>=\<close>, and so it is not the identifier with these characters stripped.
\<close>

theorem description_strips_counterexample:
  "generate_filename_and_desc sample_bbox (ymd2ord 2021 1 1) (ymd2ord 2021 2 1) =
     (''min_lat=0.5_min_lon=-0.75_max_lat=0.625_max_lon=-0.625_dates=2021-01-01_2021-02-01'',
      ''min_lat-0-5_min_lon--0-75_max_lat-0-625_max_lon--0-625_dates-2021-01-01_2021-02-01'')
   \<and> take 100 (filter (\<lambda>c. c \<noteq> CHR ''.'' \<and> c \<noteq> CHR ''='')
        (fst (generate_filename_and_desc sample_bbox (ymd2ord 2021 1 1) (ymd2ord 2021 2 1)))) =
      ''min_lat05_min_lon-075_max_lat0625_max_lon-0625_dates2021-01-01_2021-02-01''
   \<and> snd (generate_filename_and_desc sample_bbox (ymd2ord 2021 1 1) (ymd2ord 2021 2 1)) \<noteq>
      take 100 (filter (\<lambda>c. c \<noteq> CHR ''.'' \<and> c \<noteq> CHR ''='')
        (fst (generate_filename_and_desc sample_bbox (ymd2ord 2021 1 1) (ymd2ord 2021 2 1))))"
  by (simp add: sample_ordinals sample_request sample_filename_def sample_description_def)

lemma near_floor: "\<lfloor>(5120625 :: rat) / 1024\<rfloor> = 5000"
  by (rule floor_unique) simp_all

lemma near_request:
  "fst (generate_filename_and_desc near_bbox 737791 737822) =
     ''min_lat=0.5001_min_lon=-0.75_max_lat=0.625_max_lon=-0.625_dates=2021-01-01_2021-02-01''"
  by (simp add: generate_filename_and_desc_def near_bbox_def sample_bbox_def sample_rounds
        sample_strs sample_dates Let_def)

text \<open>
  C9, as amended. Two bounding boxes whose corresponding coordinates have the same sign
  and lie within less than 0.00005 of the same multiple of 0.0001 (so that they round to
  the same value with four decimals) produce, with the same dates, the same identifier and
  the same description.
\<close>

theorem identifier_determinism:
  assumes "negative (min_lat a) = negative (min_lat b)"
      and "within_half (min_lat a) k1" and "within_half (min_lat b) k1"
      and "negative (min_lon a) = negative (min_lon b)"
      and "within_half (min_lon a) k2" and "within_half (min_lon b) k2"
      and "negative (max_lat a) = negative (max_lat b)"
      and "within_half (max_lat a) k3" and "within_half (max_lat b) k3"
      and "negative (max_lon a) = negative (max_lon b)"
      and "within_half (max_lon a) k4" and "within_half (max_lon b) k4"
  shows "generate_filename_and_desc a start_date end_date =
         generate_filename_and_desc b start_date end_date"
  using assms by (simp add: generate_filename_and_desc_def py_round_within_half)

lemma close_bbox_hyps:
  "negative (min_lat sample_bbox) = negative (min_lat close_bbox)"
  "within_half (min_lat sample_bbox) 5000" "within_half (min_lat close_bbox) 5000"
  "negative (min_lon sample_bbox) = negative (min_lon close_bbox)"
  "within_half (min_lon sample_bbox) 7500" "within_half (min_lon close_bbox) 7500"
  "negative (max_lat sample_bbox) = negative (max_lat close_bbox)"
  "within_half (max_lat sample_bbox) 6250" "within_half (max_lat close_bbox) 6250"
  "negative (max_lon sample_bbox) = negative (max_lon close_bbox)"
  "within_half (max_lon sample_bbox) 6250" "within_half (max_lon close_bbox) 6250"
  by (simp_all add: sample_bbox_def close_bbox_def within_half_def float_of_def)

lemma close_bbox_differs: "min_lat sample_bbox \<noteq> min_lat close_bbox"
  by (simp add: sample_bbox_def close_bbox_def float_of_def)

theorem identifier_determinism_witness:
  "within_half (min_lat sample_bbox) 5000 \<and> within_half (min_lat close_bbox) 5000
   \<and> min_lat sample_bbox \<noteq> min_lat close_bbox
   \<and> generate_filename_and_desc close_bbox 737791 737822 = (sample_filename, sample_description)"
  using identifier_determinism [OF close_bbox_hyps, of 737791 737822]
  by (simp add: close_bbox_hyps close_bbox_differs sample_request)

lemma near_bbox_same4:
  "same_to_4th_decimal (min_lat sample_bbox) (min_lat near_bbox)"
  "same_to_4th_decimal (min_lon sample_bbox) (min_lon near_bbox)"
  "same_to_4th_decimal (max_lat sample_bbox) (max_lat near_bbox)"
  "same_to_4th_decimal (max_lon sample_bbox) (max_lon near_bbox)"
  by (simp_all add: same_to_4th_decimal_def near_bbox_def sample_bbox_def float_of_def
        near_floor)

text \<open>
  The claim C9 as it is written fails: 0.5 and 0.50006103515625 agree in every digit up
  to the fourth decimal place, the other coordinates and the dates are the same, and the
  identifiers differ, because the coordinates are rounded and not cut.
\<close>

theorem same_four_decimals_counterexample:
  "same_to_4th_decimal (min_lat sample_bbox) (min_lat near_bbox)
   \<and> same_to_4th_decimal (min_lon sample_bbox) (min_lon near_bbox)
   \<and> same_to_4th_decimal (max_lat sample_bbox) (max_lat near_bbox)
   \<and> same_to_4th_decimal (max_lon sample_bbox) (max_lon near_bbox)
   \<and> fst (generate_filename_and_desc sample_bbox (ymd2ord 2021 1 1) (ymd2ord 2021 2 1)) =
       ''min_lat=0.5_min_lon=-0.75_max_lat=0.625_max_lon=-0.625_dates=2021-01-01_2021-02-01''
   \<and> fst (generate_filename_and_desc near_bbox (ymd2ord 2021 1 1) (ymd2ord 2021 2 1)) =
       ''min_lat=0.5001_min_lon=-0.75_max_lat=0.625_max_lon=-0.625_dates=2021-01-01_2021-02-01''
   \<and> fst (generate_filename_and_desc sample_bbox (ymd2ord 2021 1 1) (ymd2ord 2021 2 1)) \<noteq>
     fst (generate_filename_and_desc near_bbox (ymd2ord 2021 1 1) (ymd2ord 2021 2 1))"
  by (simp add: sample_ordinals sample_request near_request sample_filename_def
        near_bbox_same4)

section \<open>The task list\<close>

lemma task_values_not_completed:
  assumes "\<forall>t \<in> set ts. t ''state'' \<noteq> None \<and> t key \<noteq> None"
  shows "task_values ts key =
           Inr (map (\<lambda>t. the (t key)) (filter (\<lambda>t. t ''state'' \<noteq> Some ''COMPLETED'') ts))"
  using assms by (induction ts) auto

lemma failed_task_env_fields:
  "ee_getTaskList failed_task_env =
     Inr [[''description'' \<mapsto> sample_description, ''state'' \<mapsto> ''FAILED'']]"
  "ee_Initialize failed_task_env c = None"
  "list_blobs failed_task_env b p = Inr []"
  "from_centre failed_task_env lat lon m = sample_bbox"
  by (simp_all add: failed_task_env_def sample_env_def)

text \<open>
  C4: the code departs from the claim. The list of pending jobs that
  \<^verbatim>\<open>get_ee_task_list\<close> returns holds the description of every task whose state is
  not \<^verbatim>\<open>COMPLETED\<close>. A task that has failed is neither queued nor running, yet its
  description is listed, the exporter built from that list holds it as pending, and the
  request with this description is skipped as pending.
\<close>

theorem failed_task_listed_as_pending:
  "get_ee_task_list failed_task_env ''description'' = ([GetTaskList], Inr [sample_description])
   \<and> post_init failed_task_env sample_exporter =
       ([Initialize None, ListBlobs ''crop-mask-tifs'' ''tifs'', GetTaskList],
        Inr pending_exporter)
   \<and> export_using_point_and_dates failed_task_env pending_exporter (float_of (9 / 16))
       (float_of (- (11 / 16))) 737791 737822 = Some ([], Inr (True, Skipped_Pending))"
proof -
  have g: "get_ee_task_list failed_task_env ''description'' =
             ([GetTaskList], Inr [sample_description])"
    by (simp add: get_ee_task_list_def failed_task_env_fields)
  have p: "post_init failed_task_env sample_exporter =
       ([Initialize None, ListBlobs ''crop-mask-tifs'' ''tifs'', GetTaskList],
        Inr pending_exporter)"
    by (simp add: post_init_def check_earthengine_auth_def get_cloud_tif_list_def g
          failed_task_env_fields sample_exporter_fields pending_exporter_def)
  have e: "export_using_point_and_dates failed_task_env pending_exporter (float_of (9 / 16))
       (float_of (- (11 / 16))) 737791 737822 = Some ([], Inr (True, Skipped_Pending))"
    using sample_checks(3) sample_checks(6)
    by (simp add: export_using_point_and_dates_def failed_task_env_fields sample_request
          exists_check_def is_pending_check_def)
  from g p e show ?thesis by simp
qed

section \<open>Authentication\<close>

lemma export_for_polygon_init_irrelevant:
  "export_for_polygon (env\<lparr>ee_Initialize := i\<rparr>) self polygon s e prefix desc bucket =
   export_for_polygon env self polygon s e prefix desc bucket"
  by (simp add: export_for_polygon_def Let_def split: option.splits)

lemma export_using_point_and_dates_init_irrelevant:
  "export_using_point_and_dates (env\<lparr>ee_Initialize := i\<rparr>) self lat lon s e =
   export_using_point_and_dates env self lat lon s e"
  by (cases "generate_filename_and_desc (from_centre env lat lon (surrounding_metres self)) s e")
     (simp add: export_using_point_and_dates_def export_for_polygon_init_irrelevant Let_def)

lemma export_rows_init_irrelevant:
  "export_rows (env\<lparr>ee_Initialize := i\<rparr>) self rows n m = export_rows env self rows n m"
  by (induction rows arbitrary: n m)
     (simp_all add: export_using_point_and_dates_init_irrelevant
        split: sum.splits option.splits prod.splits)

lemma check_earthengine_auth_returns:
  "snd (check_earthengine_auth env self) = Inr ()"
  by (simp add: check_earthengine_auth_def Let_def split: option.splits)

lemma post_init_init_irrelevant:
  "snd (post_init (env\<lparr>ee_Initialize := i\<rparr>) self) = snd (post_init env self)"
proof -
  obtain a1 where a1: "check_earthengine_auth env self = (a1, Inr ())"
    using check_earthengine_auth_returns [of env self] by (cases "check_earthengine_auth env self") simp
  obtain a2 where a2: "check_earthengine_auth (env\<lparr>ee_Initialize := i\<rparr>) self = (a2, Inr ())"
    using check_earthengine_auth_returns [of "env\<lparr>ee_Initialize := i\<rparr>" self]
    by (cases "check_earthengine_auth (env\<lparr>ee_Initialize := i\<rparr>) self") simp
  show ?thesis
    by (simp add: post_init_def a1 a2 get_cloud_tif_list_def get_ee_task_list_def
          split: sum.splits prod.splits)
qed

text \<open>
  C7, as amended. A failure of the authentication is caught and written to the log:
  \<^verbatim>\<open>check_earthengine_auth\<close> returns normally whatever \<^verbatim>\<open>ee.Initialize\<close> does,
  it raises no error of its own, and the run is not aborted by it. What the run returns
  after the check (the listings, the processing of the requests, the counters, or a later
  error) does not depend on whether the initialisation succeeded.
\<close>

theorem authentication_failure_is_only_logged:
  "snd (check_earthengine_auth env self) = Inr ()
   \<and> ((\<forall>c. ee_Initialize env c \<noteq> None) \<longrightarrow>
        last (fst (check_earthengine_auth env self)) = LogError auth_message)
   \<and> map_option snd (run_label_export (env\<lparr>ee_Initialize := init\<rparr>) lself labels) =
       map_option snd (run_label_export env lself labels)"
proof (intro conjI)
  show "snd (check_earthengine_auth env self) = Inr ()"
    by (rule check_earthengine_auth_returns)
  show "(\<forall>c. ee_Initialize env c \<noteq> None) \<longrightarrow>
        last (fst (check_earthengine_auth env self)) = LogError auth_message"
    by (auto simp: check_earthengine_auth_def Let_def split: option.splits)
  have "snd (post_init (env\<lparr>ee_Initialize := init\<rparr>) lself) = snd (post_init env lself)"
    by (rule post_init_init_irrelevant)
  then show "map_option snd (run_label_export (env\<lparr>ee_Initialize := init\<rparr>) lself labels) =
       map_option snd (run_label_export env lself labels)"
    by (cases "post_init (env\<lparr>ee_Initialize := init\<rparr>) lself"; cases "post_init env lself")
       (auto simp: run_label_export_def export_rows_init_irrelevant
          split: sum.splits option.splits prod.splits)
qed

lemma unauthenticated_env_fields:
  "ee_Initialize unauthenticated_env c = Some (EEException ''Please authorize access'')"
  "list_blobs unauthenticated_env b p = Inr [''tifs/'' @ sample_filename @ ''.tif'']"
  "from_centre unauthenticated_env lat lon m = sample_bbox"
  "strptime_date unauthenticated_env = sample_strptime"
  by (simp_all add: unauthenticated_env_def sample_env_def)

lemma offline_exporter_fields:
  "check_gcp offline_exporter" "\<not> check_ee offline_exporter"
  "dest_bucket offline_exporter = ''crop-mask-tifs''" "credentials offline_exporter = None"
  by (simp_all add: offline_exporter_def sample_exporter_def)

lemma sample_row_fields:
  "sample_strptime (row_start sample_row) = Inr 737791"
  "sample_strptime (row_end sample_row) = Inr 737822"
  by (simp_all add: sample_strptime_def sample_row_def sample_ordinals)

lemma unauthenticated_run:
  "run_label_export unauthenticated_env offline_exporter [sample_row, sample_row] =
     Some ([Initialize None, LogError auth_message, ListBlobs ''crop-mask-tifs'' ''tifs''],
           Inr (0, 2))"
  by (simp add: run_label_export_def post_init_def check_earthengine_auth_def
        get_cloud_tif_list_def unauthenticated_env_fields offline_exporter_fields
        sample_row_fields export_using_point_and_dates_def sample_request)

theorem authentication_failure_is_only_logged_witness:
  "map_option snd (run_label_export (unauthenticated_env\<lparr>ee_Initialize := (\<lambda>_. None)\<rparr>)
      offline_exporter [sample_row, sample_row]) = Some (Inr (0, 2))
   \<and> snd (check_earthengine_auth unauthenticated_env offline_exporter) = Inr ()
   \<and> last (fst (check_earthengine_auth unauthenticated_env offline_exporter)) =
       LogError auth_message"
  using authentication_failure_is_only_logged [of unauthenticated_env offline_exporter
      "\<lambda>_. None" offline_exporter "[sample_row, sample_row]"]
  by (simp add: unauthenticated_run unauthenticated_env_fields)

text \<open>
  The claim C7 as it is written fails: in an environment where \<^verbatim>\<open>ee.Initialize\<close>
  raises, the run over two label rows whose file is in storage is not aborted; the failure
  is logged, the storage is listed, and both requests are processed and counted as already
  exported.
\<close>

theorem authentication_aborts_run_counterexample:
  "ee_Initialize unauthenticated_env None = Some (EEException ''Please authorize access'')
   \<and> run_label_export unauthenticated_env offline_exporter [sample_row, sample_row] =
       Some ([Initialize None, LogError auth_message, ListBlobs ''crop-mask-tifs'' ''tifs''],
             Inr (0, 2))"
  by (simp add: unauthenticated_run unauthenticated_env_fields)

section \<open>Combining the mosaics of the windows\<close>

lemma ee_select_present:
  "set bands \<subseteq> fst ` set img \<Longrightarrow>
   ee_select img bands = Inr (map (\<lambda>b. (b, band_content img b)) bands)"
proof (induction bands)
  case Nil
  show ?case by simp
next
  case (Cons b bands)
  then have "b \<in> fst ` set img" by simp
  then obtain v where "map_of img b = Some v"
    by (metis map_of_eq_None_iff not_Some_eq)
  with Cons show ?case by (simp add: band_content_def)
qed

lemma ee_addBands_contents: "map snd (ee_addBands dst src) = map snd dst @ map snd src"
  unfolding ee_addBands_def by (induction src arbitrary: dst) simp_all

lemma combine_bands_contents:
  assumes "set bands \<subseteq> fst ` set current"
  shows "\<exists>r. combine_bands bands current previous = Inr r
             \<and> map snd r = (case previous of None \<Rightarrow> [] | Some p \<Rightarrow> map snd p)
                            @ map (band_content current) bands"
  using assms
  by (cases previous)
     (simp_all add: combine_bands_def ee_select_present ee_addBands_contents comp_def)

lemma ee_iterate_combine_bands:
  assumes "\<forall>m \<in> set ms. set bands \<subseteq> fst ` set m"
  shows "\<exists>r. ee_iterate (combine_bands bands) ms previous = Inr r
             \<and> (ms \<noteq> [] \<longrightarrow> r \<noteq> None)
             \<and> (case r of None \<Rightarrow> [] | Some i \<Rightarrow> map snd i) =
                 (case previous of None \<Rightarrow> [] | Some p \<Rightarrow> map snd p)
                 @ concat (map (\<lambda>m. map (band_content m) bands) ms)"
  using assms
proof (induction ms arbitrary: previous)
  case Nil
  show ?case by simp
next
  case (Cons m ms)
  then have "set bands \<subseteq> fst ` set m" by simp
  from combine_bands_contents [OF this, of previous]
  obtain r1 where r1: "combine_bands bands m previous = Inr r1"
    and c1: "map snd r1 = (case previous of None \<Rightarrow> [] | Some p \<Rightarrow> map snd p)
                          @ map (band_content m) bands"
    by blast
  from Cons have "\<forall>m \<in> set ms. set bands \<subseteq> fst ` set m" by simp
  from Cons.IH [OF this, of "Some r1"]
  obtain r where r: "ee_iterate (combine_bands bands) ms (Some r1) = Inr r"
    and n: "ms \<noteq> [] \<longrightarrow> r \<noteq> None"
    and c: "(case r of None \<Rightarrow> [] | Some i \<Rightarrow> map snd i) =
            map snd r1 @ concat (map (\<lambda>m. map (band_content m) bands) ms)"
    by auto
  have "r \<noteq> None"
  proof (cases ms)
    case Nil
    with r show ?thesis by auto
  next
    case (Cons a list)
    with n show ?thesis by simp
  qed
  with r1 r c c1 show ?case by simp
qed

lemma ee_iterate_empty: "ee_iterate (combine_bands bands) [] None = Inr None"
  by simp

text \<open>
  C10. Combining a sequence of mosaics, one for each window and each holding the fixed
  set of bands, gives a single image; the number of its bands is the number of windows
  times the number of bands of a step, and its bands are those of the first window in the
  order of the fixed set, then those of the second window, and so on in the order of the
  windows.
\<close>

theorem combine_keeps_window_order:
  assumes "window_mosaics \<noteq> []"
      and "\<forall>m \<in> set window_mosaics. set bands \<subseteq> fst ` set m"
  shows "\<exists>img. ee_iterate (combine_bands bands) window_mosaics None = Inr (Some img)
               \<and> length img = length window_mosaics * length bands
               \<and> map snd img =
                   concat (map (\<lambda>m. map (band_content m) bands) window_mosaics)"
proof -
  from ee_iterate_combine_bands [OF assms(2), of None] assms(1)
  obtain img where i: "ee_iterate (combine_bands bands) window_mosaics None = Inr (Some img)"
    and c: "map snd img = concat (map (\<lambda>m. map (band_content m) bands) window_mosaics)"
    by auto
  have "length (concat (map (\<lambda>m. map (band_content m) bands) window_mosaics)) =
        length window_mosaics * length bands"
    by (induction window_mosaics) simp_all
  with c have "length img = length window_mosaics * length bands"
    by (metis length_map)
  with i c show ?thesis by blast
qed

lemma sample_combination:
  "ee_iterate (combine_bands [''B2'', ''B3''])
     [sample_mosaic p 737791 737801, sample_mosaic p 737801 737811] None =
   Inr (Some [(''B2'', (737791, 737801)), (''B3'', (737791, 737801)),
              (''B2_1'', (737801, 737811)), (''B3_1'', (737801, 737811))])"
  by (simp add: combine_bands_def sample_mosaic_def ee_addBands_def fresh_band_name_def
        str_nat.simps digit_char_def upt_conv_Cons del: upt_Suc)

theorem combine_keeps_window_order_witness:
  "[sample_mosaic (Polygon sample_bbox) 737791 737801, sample_mosaic (Polygon sample_bbox) 737801 737811] \<noteq> []
   \<and> (\<exists>img. ee_iterate (combine_bands [''B2'', ''B3''])
               [sample_mosaic (Polygon sample_bbox) 737791 737801, sample_mosaic (Polygon sample_bbox) 737801 737811] None
             = Inr (Some img)
           \<and> length img = 4
           \<and> map snd img = [(737791, 737801), (737791, 737801),
                             (737801, 737811), (737801, 737811)])"
proof -
  let ?ms = "[sample_mosaic (Polygon sample_bbox) 737791 737801, sample_mosaic (Polygon sample_bbox) 737801 737811]"
  have ne: "?ms \<noteq> []" by simp
  have h: "\<forall>m \<in> set ?ms. set [''B2'', ''B3''] \<subseteq> fst ` set m"
    by (simp add: sample_mosaic_def)
  have c: "concat (map (\<lambda>m. map (band_content m) [''B2'', ''B3'']) ?ms) =
           [(737791, 737801), (737791, 737801), (737801, 737811), (737801, 737811)]"
    by (simp add: sample_mosaic_def band_content_def)
  from combine_keeps_window_order [OF ne h]
  obtain img where i: "ee_iterate (combine_bands [''B2'', ''B3'']) ?ms None = Inr (Some img)"
    and l: "length img = length ?ms * length [''B2'', ''B3'']"
    and m: "map snd img = concat (map (\<lambda>m. map (band_content m) [''B2'', ''B3'']) ?ms)"
    by blast
  have l': "length img = 4" using l by simp
  have m': "map snd img = [(737791, 737801), (737791, 737801),
                           (737801, 737811), (737801, 737811)]"
    using m unfolding c .
  have "\<exists>img. ee_iterate (combine_bands [''B2'', ''B3'']) ?ms None = Inr (Some img)
           \<and> length img = 4
           \<and> map snd img = [(737791, 737801), (737791, 737801),
                             (737801, 737811), (737801, 737811)]"
  proof (rule exI [of _ img], intro conjI)
    show "ee_iterate (combine_bands [''B2'', ''B3'']) ?ms None = Inr (Some img)" by (rule i)
    show "length img = 4" by (rule l')
    show "map snd img = [(737791, 737801), (737791, 737801),
                         (737801, 737811), (737801, 737811)]" by (rule m')
  qed
  with ne show ?thesis by (rule conjI)
qed

section \<open>A step of zero days\<close>

text \<open>
  With a step of zero days and a start date that is not after the end date, the loop of
  \<^verbatim>\<open>_export_for_polygon\<close> never returns: \<^verbatim>\<open>cur_date\<close> does not move.
\<close>

lemma zero_step_never_returns_aux:
  assumes "image_collection_loop f inc e cur acc = Some y"
  shows "inc = 0 \<longrightarrow> \<not> cur \<le> e"
  by (rule image_collection_loop.raw_induct
        [where P = "\<lambda>f inc e cur acc y. inc = 0 \<longrightarrow> \<not> cur \<le> e", OF _ assms])
     (auto split: if_splits)

lemma zero_step_never_returns:
  "cur \<le> e \<Longrightarrow> image_collection_loop f 0 e cur acc = None"
  using zero_step_never_returns_aux [of f 0 e cur acc]
  by (cases "image_collection_loop f 0 e cur acc") auto

lemma time_windows_zero_step:
  "start_date \<le> end_date \<Longrightarrow> time_windows start_date end_date 0 = None"
  by (simp add: time_windows_def zero_step_never_returns)

end
